theory Spec2Isabelle
  imports Main "HOL-Library.Sublist"
begin

section \<open>Shared result types\<close>

text \<open>
  A rejected promise is a value: every asynchronous operation returns \<open>error + 'a\<close>,
  with \<open>Inl\<close> for the rejection (a transport or an authentication failure of the
  remote call).
\<close>

datatype error = NetworkFailure string | AuthFailure string

section \<open>The user collection\<close>

subsection \<open>Entities\<close>

text \<open>
  \<open>CSUser\<close> is the raw record of the backend; the two fields the wrapper projects are
  \<open>email\<close> and \<open>username\<close>. \<open>User\<close> is \<open>CodeStreamItem<CSUser>\<close>: the session
  handle and the wrapped entity.
\<close>

record CSUser =
  CSUser_id :: string
  email :: string
  username :: string

datatype 's User = User (User_session: 's) (entity: CSUser)

definition User_email :: "'s User \<Rightarrow> string" where
  "User_email u = email (entity u)"

definition User_name :: "'s User \<Rightarrow> string" where
  "User_name u = username (entity u)"

subsection \<open>Case folding\<close>

text \<open>
  \<open>String.prototype.toLocaleUpperCase\<close> belongs to the JavaScript runtime: its result
  depends on the Unicode tables and on the locale of the host. It is a parameter of
  every lookup, a function from strings to strings of which nothing is assumed.
\<close>

type_synonym upper_case = "string \<Rightarrow> string"

subsection \<open>Iterables\<close>

text \<open>
  Modelled from the spec: \<open>Iterables.find\<close> of the system module, which is not among
  the source files. It returns the first element that satisfies the predicate, or the
  absent value when there is none.
\<close>

fun Iterables_find :: "'a list \<Rightarrow> ('a \<Rightarrow> bool) \<Rightarrow> 'a option" where
  "Iterables_find [] p = None"
| "Iterables_find (x # xs) p = (if p x then Some x else Iterables_find xs p)"

text \<open>
  Modelled from the spec: \<open>Iterables.filter\<close> of the system module, which is not among
  the source files. It yields the elements that satisfy the predicate, in the order of
  the source iterable.
\<close>

fun Iterables_filter :: "'a list \<Rightarrow> ('a \<Rightarrow> bool) \<Rightarrow> 'a list" where
  "Iterables_filter [] p = []"
| "Iterables_filter (x # xs) p = (if p x then x # Iterables_filter xs p else Iterables_filter xs p)"

text \<open>\<open>Array.prototype.includes\<close> on an array of strings.\<close>

fun Array_includes :: "'a list \<Rightarrow> 'a \<Rightarrow> bool" where
  "Array_includes [] y = False"
| "Array_includes (x # xs) y = (x = y \<or> Array_includes xs y)"

subsection \<open>Lookups\<close>

text \<open>
  The options object \<open>{ ignoreCase?: boolean }\<close>. An omitted argument is \<open>None\<close> and
  takes the default \<open>{ ignoreCase: true }\<close>; a property that is absent reads as
  \<open>undefined\<close>, which a condition treats as false.
\<close>

record options =
  ignoreCase :: "bool option"

fun truthy :: "bool option \<Rightarrow> bool" where
  "truthy None = False"
| "truthy (Some b) = b"

definition default_options :: "options option \<Rightarrow> options" where
  "default_options opt = (case opt of None \<Rightarrow> \<lparr>ignoreCase = Some True\<rparr> | Some ops \<Rightarrow> ops)"

text \<open>
  An asynchronous method of a collection in state \<open>'c\<close>: it returns its result, or the
  rejection, and the state it leaves. \<open>this.items()\<close> is a method of the base class
  \<open>CodeStreamCollection\<close>; the lookups take it as a parameter and await it once.
\<close>

type_synonym ('c, 'a) async = "'c \<Rightarrow> (error + 'a) \<times> 'c"

definition getByEmail ::
  "upper_case \<Rightarrow> ('c, 's User list) async \<Rightarrow> string \<Rightarrow> options option \<Rightarrow>
     ('c, 's User option) async" where
  "getByEmail toLocaleUpperCase items email0 opt c =
     (let ops = default_options opt;
          email1 = (if truthy (ignoreCase ops) then toLocaleUpperCase email0 else email0)
      in case items c of
           (Inl e, c') \<Rightarrow> (Inl e, c')
         | (Inr us, c') \<Rightarrow>
             (Inr (Iterables_find us
                (\<lambda>u. (if truthy (ignoreCase ops) then toLocaleUpperCase (User_email u)
                       else User_email u) = email1)), c'))"

definition getByEmails ::
  "upper_case \<Rightarrow> ('c, 's User list) async \<Rightarrow> string list \<Rightarrow> options option \<Rightarrow>
     ('c, 's User list) async" where
  "getByEmails toLocaleUpperCase items emails0 opt c =
     (let ops = default_options opt;
          emails1 = (if truthy (ignoreCase ops) then map toLocaleUpperCase emails0 else emails0)
      in case items c of
           (Inl e, c') \<Rightarrow> (Inl e, c')
         | (Inr us, c') \<Rightarrow>
             (Inr (Iterables_filter us
                (\<lambda>u. Array_includes emails1
                   (if truthy (ignoreCase ops) then toLocaleUpperCase (User_email u)
                    else User_email u))), c'))"

definition getByName ::
  "upper_case \<Rightarrow> ('c, 's User list) async \<Rightarrow> string \<Rightarrow> options option \<Rightarrow>
     ('c, 's User option) async" where
  "getByName toLocaleUpperCase items name0 opt c =
     (let ops = default_options opt;
          name1 = (if truthy (ignoreCase ops) then toLocaleUpperCase name0 else name0)
      in case items c of
           (Inl e, c') \<Rightarrow> (Inl e, c')
         | (Inr us, c') \<Rightarrow>
             (Inr (Iterables_find us
                (\<lambda>u. (if truthy (ignoreCase ops) then toLocaleUpperCase (User_name u)
                       else User_name u) = name1)), c'))"

subsection \<open>The lazy cache\<close>

text \<open>
  \<open>session.api.getUsers\<close> is the remote listing endpoint. Its answers are a parameter:
  \<open>getUsers n\<close> is what the call number \<open>n\<close> settles with, a rejection or the raw
  records. A promise is the number of the call it stands for.
\<close>

type_synonym getUsers_api = "nat \<Rightarrow> error + CSUser list"

text \<open>
  Modelled from the spec: the cache field of the base class \<open>CodeStreamCollection\<close>
  (module ./collection), which is not among the source files. The cache is empty at
  construction, holds the promise of the one fetch in flight while it is pending, and
  holds the mapped entities once that fetch has resolved; a fetch that fails leaves the
  cache unset for the next call to retry.
\<close>

datatype 'u cache = Unset | InFlight nat | Populated "'u list"

text \<open>
  The collection: the session and the team id of the constructor, the cache of the base
  class, and the number of \<open>getUsers\<close> calls issued so far through this collection,
  which the program does not store and the model keeps to count fetches.
\<close>

record 's UserCollection =
  session :: 's
  teamId :: string
  cache :: "'s User cache"
  getUsersCalls :: nat

text \<open>
  \<open>fetch()\<close> issues one \<open>getUsers\<close> call and returns its promise;
  \<open>entityMapper\<close> wraps a raw record with the session of the collection.
\<close>

definition fetch :: "'s UserCollection \<Rightarrow> nat \<times> 's UserCollection" where
  "fetch c = (getUsersCalls c, c\<lparr>getUsersCalls := Suc (getUsersCalls c)\<rparr>)"

definition entityMapper :: "'s UserCollection \<Rightarrow> CSUser \<Rightarrow> 's User" where
  "entityMapper c e = User (session c) e"

text \<open>
  Modelled from the spec: the first half of \<open>items()\<close> of the base class, the call up
  to its await. It starts a fetch only when the cache is unset; a later caller waits for
  the fetch in flight or reads the populated cache.
\<close>

definition items_begin :: "'s UserCollection \<Rightarrow> 's UserCollection" where
  "items_begin c =
     (case cache c of
        Unset \<Rightarrow> (let (p, c') = fetch c in c'\<lparr>cache := InFlight p\<rparr>)
      | InFlight p \<Rightarrow> c
      | Populated us \<Rightarrow> c)"

text \<open>
  Modelled from the spec: the second half of \<open>items()\<close> of the base class, the
  settlement of the promise in flight. The cache is populated with the mapped records,
  or reset on a rejection, and the caller gets the entities or the rejection itself.
\<close>

definition await_fetch ::
  "getUsers_api \<Rightarrow> nat \<Rightarrow> ('s UserCollection, 's User list) async" where
  "await_fetch getUsers p c =
     (case getUsers p of
        Inl e \<Rightarrow> (Inl e, c\<lparr>cache := Unset\<rparr>)
      | Inr raws \<Rightarrow>
          (let us = map (entityMapper c) raws in (Inr us, c\<lparr>cache := Populated us\<rparr>)))"

text \<open>
  Modelled from the spec: \<open>items()\<close> of the base class for a caller that runs alone:
  it returns the cached sequence, fetching and mapping on the first call.
\<close>

definition items :: "getUsers_api \<Rightarrow> ('s UserCollection, 's User list) async" where
  "items getUsers c =
     (case cache c of
        Populated us \<Rightarrow> (Inr us, c)
      | InFlight p \<Rightarrow> await_fetch getUsers p c
      | Unset \<Rightarrow> (let (p, c') = fetch c in await_fetch getUsers p (c'\<lparr>cache := InFlight p\<rparr>)))"

text \<open>
  Modelled from the spec: overlapping callers of \<open>items()\<close>. A \<open>Lookup\<close> is a caller
  reaching the await, a \<open>Settle\<close> is the promise in flight settling, and a run is any
  interleaving of the two.
\<close>

datatype event = Lookup | Settle

fun step :: "getUsers_api \<Rightarrow> event \<Rightarrow> 's UserCollection \<Rightarrow> 's UserCollection" where
  "step getUsers Lookup c = items_begin c"
| "step getUsers Settle c =
     (case cache c of InFlight p \<Rightarrow> snd (await_fetch getUsers p c) | _ \<Rightarrow> c)"


section \<open>The Trello provider (providers/trello.ts)\<close>

subsection \<open>Protocol types\<close>

text \<open>
  The shapes of shared/agent.protocol that the provider reads: a board with its
  organization id, a list with its closed flag, the three requests, and the two
  response objects the provider builds.
\<close>

record TrelloBoard =
  board_id :: string
  board_name :: string
  idOrganization :: string

record TrelloList =
  list_id :: string
  list_name :: string
  closed :: bool

record TrelloFetchBoardsRequest =
  organizationId :: "string option"

record TrelloFetchListsRequest =
  boardId :: string

record TrelloCreateCardRequest =
  listId :: string
  name :: string
  description :: string

datatype TrelloFetchBoardsResponse = FetchBoardsResponse (response_boards: "TrelloBoard list")

datatype TrelloFetchListsResponse = FetchListsResponse (response_lists: "TrelloList list")

record TokenInfo =
  idMember :: string

subsection \<open>The provider and its HTTP layer\<close>

text \<open>
  The provider's own field is \<open>_trelloUserId\<close>; \<open>_providerInfo\<close> and
  \<open>accessToken\<close> come from the base class \<open>ThirdPartyProviderBase\<close> and are read
  only. Values that may be \<open>undefined\<close> are options.
\<close>

record CSTrelloProviderInfo =
  info_apiKey :: string

record TrelloProvider =
  trelloUserId :: "string option"
  providerInfo :: "CSTrelloProviderInfo option"
  accessToken :: "string option"

text \<open>\<open>this._providerInfo && this._providerInfo.apiKey\<close>\<close>

definition apiKey :: "TrelloProvider \<Rightarrow> string option" where
  "apiKey p = (case providerInfo p of None \<Rightarrow> None | Some info \<Rightarrow> Some (info_apiKey info))"

text \<open>
  \<open>this.get\<close> and \<open>this.post\<close> of the base class and \<open>qs.stringify\<close> of the
  runtime are parameters: a request is a function of its URL that answers with a
  rejection or with a response carrying a body. Every operation returns its result, the
  provider it leaves and the requests it issued, in order.
\<close>

record 'b ApiResponse =
  body :: 'b

datatype http_call = GET string | POST string

type_synonym 'b http_get = "string \<Rightarrow> error + 'b ApiResponse"

type_synonym 'b http_post = "string \<Rightarrow> unit \<Rightarrow> error + 'b ApiResponse"

type_synonym qs_stringify = "(string \<times> string option) list \<Rightarrow> string"

type_synonym 'r provider_op = "TrelloProvider \<Rightarrow> (error + 'r) \<times> TrelloProvider \<times> http_call list"

text \<open>A template literal prints \<open>undefined\<close> for a missing value.\<close>

definition template :: "string option \<Rightarrow> string" where
  "template v = (case v of None \<Rightarrow> ''undefined'' | Some s \<Rightarrow> s)"

text \<open>A string in a condition: \<open>undefined\<close> and the empty string are false.\<close>

definition string_truthy :: "string option \<Rightarrow> bool" where
  "string_truthy v = (case v of None \<Rightarrow> False | Some s \<Rightarrow> s \<noteq> [])"

subsection \<open>Operations\<close>

definition memberIdUrl :: "qs_stringify \<Rightarrow> TrelloProvider \<Rightarrow> string" where
  "memberIdUrl qs p =
     ''/token/'' @ template (accessToken p) @ ''?'' @
       qs [(''key'', apiKey p), (''token'', accessToken p)]"

definition getMemberId :: "TokenInfo http_get \<Rightarrow> qs_stringify \<Rightarrow> string provider_op" where
  "getMemberId get qs p =
     (case get (memberIdUrl qs p) of
        Inl e \<Rightarrow> (Inl e, p, [GET (memberIdUrl qs p)])
      | Inr tokenResponse \<Rightarrow> (Inr (idMember (body tokenResponse)), p, [GET (memberIdUrl qs p)]))"

definition onConnected :: "TokenInfo http_get \<Rightarrow> qs_stringify \<Rightarrow> unit provider_op" where
  "onConnected get qs p =
     (case getMemberId get qs p of
        (Inl e, p', calls) \<Rightarrow> (Inl e, p', calls)
      | (Inr memberId, p', calls) \<Rightarrow> (Inr (), p'\<lparr>trelloUserId := Some memberId\<rparr>, calls))"

definition boardsUrl :: "qs_stringify \<Rightarrow> TrelloProvider \<Rightarrow> string" where
  "boardsUrl qs p =
     ''/members/'' @ template (trelloUserId p) @ ''/boards?'' @
       qs [(''filter'', Some ''open''),
           (''fields'',
            Some ''id,name,desc,descData,closed,idOrganization,pinned,url,labelNames,starred''),
           (''lists'', Some ''open''),
           (''key'', apiKey p),
           (''token'', accessToken p)]"

definition boards ::
  "TrelloBoard list http_get \<Rightarrow> qs_stringify \<Rightarrow> TrelloFetchBoardsRequest \<Rightarrow>
     TrelloFetchBoardsResponse provider_op" where
  "boards get qs request p =
     (case get (boardsUrl qs p) of
        Inl e \<Rightarrow> (Inl e, p, [GET (boardsUrl qs p)])
      | Inr response \<Rightarrow>
          (Inr (FetchBoardsResponse
             (if string_truthy (organizationId request)
              then filter (\<lambda>b. Some (idOrganization b) = organizationId request) (body response)
              else body response)),
           p, [GET (boardsUrl qs p)]))"

definition createCardUrl ::
  "qs_stringify \<Rightarrow> TrelloCreateCardRequest \<Rightarrow> TrelloProvider \<Rightarrow> string" where
  "createCardUrl qs request p =
     ''/cards?'' @
       qs [(''idList'', Some (listId request)),
           (''name'', Some (name request)),
           (''desc'', Some (description request)),
           (''key'', apiKey p),
           (''token'', accessToken p)]"

definition createCard ::
  "'r http_post \<Rightarrow> qs_stringify \<Rightarrow> TrelloCreateCardRequest \<Rightarrow> 'r provider_op" where
  "createCard post qs request p =
     (case post (createCardUrl qs request p) () of
        Inl e \<Rightarrow> (Inl e, p, [POST (createCardUrl qs request p)])
      | Inr response \<Rightarrow> (Inr (body response), p, [POST (createCardUrl qs request p)]))"

definition listsUrl ::
  "qs_stringify \<Rightarrow> TrelloFetchListsRequest \<Rightarrow> TrelloProvider \<Rightarrow> string" where
  "listsUrl qs request p =
     ''/boards/'' @ boardId request @ ''/lists?'' @
       qs [(''key'', apiKey p), (''token'', accessToken p)]"

definition lists_trello ::
  "TrelloList list http_get \<Rightarrow> qs_stringify \<Rightarrow> TrelloFetchListsRequest \<Rightarrow>
     TrelloFetchListsResponse provider_op" where
  "lists_trello get qs request p =
     (case get (listsUrl qs request p) of
        Inl e \<Rightarrow> (Inl e, p, [GET (listsUrl qs request p)])
      | Inr response \<Rightarrow>
          (Inr (FetchListsResponse (filter (\<lambda>l. \<not> closed l) (body response))),
           p, [GET (listsUrl qs request p)]))"

section \<open>The web view bridge (PostMessageInterop)\<close>

text \<open>
  \<open>WindowEventArgs\<close> carries the message it was built from. The static field
  \<open>MessageHandler\<close> is null or a delegate, which acts on the state of the host from
  the sender and the arguments. Strings of the host may be null.
\<close>

datatype WindowEventArgs = WindowEventArgs (Message: "string option")

type_synonym ('i, 'w) WindowMessageHandler = "'i \<Rightarrow> WindowEventArgs \<Rightarrow> 'w \<Rightarrow> 'w"

definition Handle ::
  "('i, 'w) WindowMessageHandler option \<Rightarrow> 'i \<Rightarrow> string option \<Rightarrow> string option \<Rightarrow> 'w \<Rightarrow> 'w" where
  "Handle MessageHandler this message origin w =
     (case MessageHandler of
        None \<Rightarrow> w
      | Some handler \<Rightarrow> handler this (WindowEventArgs message) w)"

section \<open>Reachable cache states\<close>



section \<open>Example inputs\<close>

definition example_raws :: "CSUser list" where
  "example_raws =
     [\<lparr>CSUser_id = ''u1'', email = ''A@B.com'', username = ''Ann''\<rparr>,
      \<lparr>CSUser_id = ''u2'', email = ''a@b.com'', username = ''ann''\<rparr>,
      \<lparr>CSUser_id = ''u3'', email = ''c@d.org'', username = ''Cy''\<rparr>]"

definition example_getUsers :: getUsers_api where
  "example_getUsers n = Inr example_raws"

definition failing_getUsers :: getUsers_api where
  "failing_getUsers n = (if n = 0 then Inl (NetworkFailure ''offline'') else Inr example_raws)"

definition fresh_collection :: "unit UserCollection" where
  "fresh_collection = \<lparr>session = (), teamId = ''team1'', cache = Unset, getUsersCalls = 0\<rparr>"

definition cached_collection :: "unit UserCollection" where
  "cached_collection =
     \<lparr>session = (), teamId = ''team1'',
      cache = Populated (map (User ()) example_raws), getUsersCalls = 1\<rparr>"

text \<open>
  An instance of the folding parameter for the examples: it maps the letters \<open>a\<close> to
  \<open>z\<close> to \<open>A\<close> to \<open>Z\<close> and keeps every other character.
\<close>

definition example_upperCase :: upper_case where
  "example_upperCase s =
     map (\<lambda>c. if 97 \<le> (of_char c :: nat) \<and> (of_char c :: nat) \<le> 122
              then char_of ((of_char c :: nat) - 32) else c) s"

definition example_qs :: qs_stringify where
  "example_qs ps =
     concat (map (\<lambda>(k, v). k @ ''='' @ (case v of None \<Rightarrow> [] | Some s \<Rightarrow> s) @ ''&'') ps)"

definition example_provider :: TrelloProvider where
  "example_provider =
     \<lparr>trelloUserId = None, providerInfo = Some \<lparr>info_apiKey = ''key1''\<rparr>,
      accessToken = Some ''tok1''\<rparr>"

definition example_token_get :: "TokenInfo http_get" where
  "example_token_get url = Inr \<lparr>body = \<lparr>idMember = ''member1''\<rparr>\<rparr>"

definition example_boards :: "TrelloBoard list" where
  "example_boards =
     [\<lparr>board_id = ''b1'', board_name = ''Work'', idOrganization = ''org1''\<rparr>,
      \<lparr>board_id = ''b2'', board_name = ''Home'', idOrganization = ''org2''\<rparr>,
      \<lparr>board_id = ''b3'', board_name = ''Plans'', idOrganization = ''org1''\<rparr>]"

definition example_boards_get :: "TrelloBoard list http_get" where
  "example_boards_get url = Inr \<lparr>body = example_boards\<rparr>"

definition example_lists_get :: "TrelloList list http_get" where
  "example_lists_get url = Inr \<lparr>body =
     [\<lparr>list_id = ''l1'', list_name = ''To do'', closed = False\<rparr>,
      \<lparr>list_id = ''l2'', list_name = ''Old'', closed = True\<rparr>,
      \<lparr>list_id = ''l3'', list_name = ''Done'', closed = False\<rparr>]\<rparr>"

definition example_post :: "string http_post" where
  "example_post url payload = Inr \<lparr>body = ''card1''\<rparr>"

definition example_handler :: "(unit, string list) WindowMessageHandler" where
  "example_handler sender args w = (case Message args of None \<Rightarrow> w | Some m \<Rightarrow> m # w)"

section \<open>The iterable helpers\<close>

lemma Iterables_find_eq: "Iterables_find xs p = List.find p xs"
  by (induction xs) auto

lemma Iterables_filter_eq: "Iterables_filter xs p = filter p xs"
  by (induction xs) auto

lemma Array_includes_iff: "Array_includes xs y \<longleftrightarrow> y \<in> set xs"
  by (induction xs) auto


lemma includes_folded:
  "Array_includes (map up es) (up x) \<longleftrightarrow> (\<exists>e\<in>set es. up e = up x)"
  by (induction es) simp_all

section \<open>Lookups and the state of the collection\<close>


lemma lookup_rejected:
  assumes "its c = (Inl e, c')"
  shows "getByEmail up its q opt c = (Inl e, c')"
    and "getByEmails up its qs opt c = (Inl e, c')"
    and "getByName up its q opt c = (Inl e, c')"
  using assms by (simp_all add: getByEmail_def getByEmails_def getByName_def Let_def)

lemma items_Unset:
  "cache c = Unset \<Longrightarrow>
     items g c = await_fetch g (getUsersCalls c)
       (c\<lparr>getUsersCalls := Suc (getUsersCalls c), cache := InFlight (getUsersCalls c)\<rparr>)"
  by (simp add: items_def fetch_def)

lemma items_Populated: "cache c = Populated us \<Longrightarrow> items g c = (Inr us, c)"
  by (simp add: items_def)

lemma items_lookup_settle: "snd (items g c) = step g Settle (step g Lookup c)"
  by (cases "cache c") (simp_all add: items_def items_begin_def fetch_def)

lemma items_cached_collection:
  "items g cached_collection = (Inr (map (User ()) example_raws), cached_collection)"
  by (rule items_Populated) (simp add: cached_collection_def)










section \<open>The claims about the user collection\<close>



text \<open>
  Claim C2: when the fetch started by \<open>items()\<close> is rejected, \<open>items()\<close> and each of
  the three lookups return that same rejection, the cache is unset afterwards (only the
  count of issued calls has changed), and the next call to \<open>items()\<close> issues a new
  fetch and awaits it.
\<close>

theorem failed_fetch_propagates:
  assumes "cache c = Unset" and "getUsers (getUsersCalls c) = Inl e"
  shows "items getUsers c = (Inl e, c\<lparr>getUsersCalls := Suc (getUsersCalls c)\<rparr>)
       \<and> getByEmail up (items getUsers) q opt c
           = (Inl e, c\<lparr>getUsersCalls := Suc (getUsersCalls c)\<rparr>)
       \<and> getByEmails up (items getUsers) qs opt c
           = (Inl e, c\<lparr>getUsersCalls := Suc (getUsersCalls c)\<rparr>)
       \<and> getByName up (items getUsers) q opt c
           = (Inl e, c\<lparr>getUsersCalls := Suc (getUsersCalls c)\<rparr>)
       \<and> cache (snd (items getUsers c)) = Unset
       \<and> items getUsers (snd (items getUsers c)) =
           await_fetch getUsers (Suc (getUsersCalls c))
             (c\<lparr>getUsersCalls := Suc (Suc (getUsersCalls c)),
                cache := InFlight (Suc (getUsersCalls c))\<rparr>)"
proof -
  have i: "items getUsers c = (Inl e, c\<lparr>getUsersCalls := Suc (getUsersCalls c)\<rparr>)"
    using assms by (simp add: items_Unset await_fetch_def)
  have u: "cache (snd (items getUsers c)) = Unset"
    using i assms by simp
  have n: "items getUsers (snd (items getUsers c)) =
           await_fetch getUsers (Suc (getUsersCalls c))
             (c\<lparr>getUsersCalls := Suc (Suc (getUsersCalls c)),
                cache := InFlight (Suc (getUsersCalls c))\<rparr>)"
    using i assms by (simp add: items_Unset)
  from i u n show ?thesis by (simp add: lookup_rejected)
qed

theorem failed_fetch_propagates_witness:
  "cache fresh_collection = Unset
 \<and> failing_getUsers (getUsersCalls fresh_collection) = Inl (NetworkFailure ''offline'')
 \<and> getByEmail example_upperCase (items failing_getUsers) ''a@b.com'' None fresh_collection
      = (Inl (NetworkFailure ''offline''), fresh_collection\<lparr>getUsersCalls := 1\<rparr>)
 \<and> cache (snd (items failing_getUsers fresh_collection)) = Unset"
proof -
  have h1: "cache fresh_collection = Unset"
    by (simp add: fresh_collection_def)
  have h2: "failing_getUsers (getUsersCalls fresh_collection) = Inl (NetworkFailure ''offline'')"
    by (simp add: failing_getUsers_def fresh_collection_def)
  have h3: "getUsersCalls fresh_collection = 0"
    by (simp add: fresh_collection_def)
  show ?thesis
    using h1 h2 h3
      failed_fetch_propagates [where c = fresh_collection and getUsers = failing_getUsers
        and e = "NetworkFailure ''offline''" and q = "''a@b.com''" and opt = None
        and up = example_upperCase]
    by simp
qed



text \<open>
  Claim C6: on a cached collection, \<open>getByEmail\<close> with \<open>ignoreCase: false\<close> returns
  the first cached entity whose email is the query itself, character for character;
  an entity it returns is a cached one whose email equals the query exactly. No
  upper-casing takes part.
\<close>

theorem lookup_exact:
  assumes "its c = (Inr us, c')"
  shows "getByEmail up its q (Some \<lparr>ignoreCase = Some False\<rparr>) c
           = (Inr (List.find (\<lambda>u. User_email u = q) us), c')
       \<and> (\<forall>u. fst (getByEmail up its q (Some \<lparr>ignoreCase = Some False\<rparr>) c) = Inr (Some u)
              \<longrightarrow> u \<in> set us \<and> User_email u = q)"
  using assms
  by (auto simp add: getByEmail_def default_options_def Let_def Iterables_find_eq
      find_Some_iff)

theorem lookup_exact_witness:
  "items example_getUsers cached_collection
     = (Inr (map (User ()) example_raws), cached_collection)
 \<and> getByEmail example_upperCase (items example_getUsers) ''a@b.COM''
       (Some \<lparr>ignoreCase = Some False\<rparr>) cached_collection
     = (Inr None, cached_collection)
 \<and> getByEmail example_upperCase (items example_getUsers) ''a@b.com''
       (Some \<lparr>ignoreCase = Some False\<rparr>) cached_collection
     = (Inr (Some (User () \<lparr>CSUser_id = ''u2'', email = ''a@b.com'', username = ''ann''\<rparr>)),
        cached_collection)"
proof -
  have h1: "items example_getUsers cached_collection
      = (Inr (map (User ()) example_raws), cached_collection)"
    by (rule items_cached_collection)
  have f1: "List.find (\<lambda>u. User_email u = ''a@b.COM'') (map (User ()) example_raws) = None"
    by code_simp
  have f2: "List.find (\<lambda>u. User_email u = ''a@b.com'') (map (User ()) example_raws)
      = Some (User () \<lparr>CSUser_id = ''u2'', email = ''a@b.com'', username = ''ann''\<rparr>)"
    by code_simp
  have a: "getByEmail example_upperCase (items example_getUsers) ''a@b.COM''
       (Some \<lparr>ignoreCase = Some False\<rparr>) cached_collection = (Inr None, cached_collection)"
    using lookup_exact [where its = "items example_getUsers" and c = cached_collection
        and us = "map (User ()) example_raws" and c' = cached_collection
        and up = example_upperCase and q = "''a@b.COM''", OF h1] f1
    by simp
  have b: "getByEmail example_upperCase (items example_getUsers) ''a@b.com''
       (Some \<lparr>ignoreCase = Some False\<rparr>) cached_collection
     = (Inr (Some (User () \<lparr>CSUser_id = ''u2'', email = ''a@b.com'', username = ''ann''\<rparr>)),
        cached_collection)"
    using lookup_exact [where its = "items example_getUsers" and c = cached_collection
        and us = "map (User ()) example_raws" and c' = cached_collection
        and up = example_upperCase and q = "''a@b.com''", OF h1] f2
    by simp
  from h1 a b show ?thesis by blast
qed

text \<open>
  Claim C7: on a cached collection, \<open>getByEmails\<close> returns the cached entities whose
  email is a member of the candidate list under the chosen folding rule, in cache
  order: when \<open>ignoreCase\<close> holds, the entities whose upper-cased email is the
  upper-casing of a candidate; otherwise the entities whose email is a candidate as it
  is. This holds for every upper-casing function.
\<close>

theorem getByEmails_subset:
  assumes "its c = (Inr us, c')"
  shows "getByEmails up its emails opt c =
     (Inr (filter (\<lambda>u. \<exists>e\<in>set emails.
              if truthy (ignoreCase (default_options opt))
              then up e = up (User_email u)
              else e = User_email u) us), c')"
proof (cases "truthy (ignoreCase (default_options opt))")
  case True
  with assms show ?thesis
    by (simp add: getByEmails_def Let_def Iterables_filter_eq includes_folded)
next
  case False
  with assms show ?thesis
    by (simp add: getByEmails_def Let_def Iterables_filter_eq Array_includes_iff)
qed

theorem getByEmails_subset_witness:
  "items example_getUsers cached_collection
     = (Inr (map (User ()) example_raws), cached_collection)
 \<and> getByEmails example_upperCase (items example_getUsers) [''C@D.ORG'', ''a@b.com'']
       (Some \<lparr>ignoreCase = Some True\<rparr>) cached_collection
     = (Inr [User () \<lparr>CSUser_id = ''u1'', email = ''A@B.com'', username = ''Ann''\<rparr>,
             User () \<lparr>CSUser_id = ''u2'', email = ''a@b.com'', username = ''ann''\<rparr>,
             User () \<lparr>CSUser_id = ''u3'', email = ''c@d.org'', username = ''Cy''\<rparr>],
        cached_collection)
 \<and> getByEmails example_upperCase (items example_getUsers) [''C@D.ORG'', ''a@b.com'']
       (Some \<lparr>ignoreCase = Some False\<rparr>) cached_collection
     = (Inr [User () \<lparr>CSUser_id = ''u2'', email = ''a@b.com'', username = ''ann''\<rparr>],
        cached_collection)"
proof -
  have h1: "items example_getUsers cached_collection
      = (Inr (map (User ()) example_raws), cached_collection)"
    by (rule items_cached_collection)
  have t: "truthy (ignoreCase (default_options (Some \<lparr>ignoreCase = Some True\<rparr>)))"
    and f: "\<not> truthy (ignoreCase (default_options (Some \<lparr>ignoreCase = Some False\<rparr>)))"
    by (simp_all add: default_options_def)
  have f1: "filter (\<lambda>u. \<exists>e\<in>set [''C@D.ORG'', ''a@b.com''].
                example_upperCase e = example_upperCase (User_email u))
              (map (User ()) example_raws)
      = [User () \<lparr>CSUser_id = ''u1'', email = ''A@B.com'', username = ''Ann''\<rparr>,
         User () \<lparr>CSUser_id = ''u2'', email = ''a@b.com'', username = ''ann''\<rparr>,
         User () \<lparr>CSUser_id = ''u3'', email = ''c@d.org'', username = ''Cy''\<rparr>]"
    by code_simp
  have f2: "filter (\<lambda>u. \<exists>e\<in>set [''C@D.ORG'', ''a@b.com'']. e = User_email u)
              (map (User ()) example_raws)
      = [User () \<lparr>CSUser_id = ''u2'', email = ''a@b.com'', username = ''ann''\<rparr>]"
    by code_simp
  have a: "getByEmails example_upperCase (items example_getUsers) [''C@D.ORG'', ''a@b.com'']
       (Some \<lparr>ignoreCase = Some True\<rparr>) cached_collection
     = (Inr [User () \<lparr>CSUser_id = ''u1'', email = ''A@B.com'', username = ''Ann''\<rparr>,
             User () \<lparr>CSUser_id = ''u2'', email = ''a@b.com'', username = ''ann''\<rparr>,
             User () \<lparr>CSUser_id = ''u3'', email = ''c@d.org'', username = ''Cy''\<rparr>],
        cached_collection)"
    using getByEmails_subset [where its = "items example_getUsers" and c = cached_collection
        and us = "map (User ()) example_raws" and c' = cached_collection
        and up = example_upperCase and emails = "[''C@D.ORG'', ''a@b.com'']"
        and opt = "Some \<lparr>ignoreCase = Some True\<rparr>", OF h1] t f1
    by (simp only: if_True)
  have b: "getByEmails example_upperCase (items example_getUsers) [''C@D.ORG'', ''a@b.com'']
       (Some \<lparr>ignoreCase = Some False\<rparr>) cached_collection
     = (Inr [User () \<lparr>CSUser_id = ''u2'', email = ''a@b.com'', username = ''ann''\<rparr>],
        cached_collection)"
    using getByEmails_subset [where its = "items example_getUsers" and c = cached_collection
        and us = "map (User ()) example_raws" and c' = cached_collection
        and up = example_upperCase and emails = "[''C@D.ORG'', ''a@b.com'']"
        and opt = "Some \<lparr>ignoreCase = Some False\<rparr>", OF h1] f f2
    by (simp only: if_False)
  from h1 a b show ?thesis by blast
qed

text \<open>
  Claim C9: each of \<open>getByEmail\<close>, \<open>getByEmails\<close> and \<open>getByName\<close> without an
  options argument is the call with \<open>{ ignoreCase: true }\<close>, and with an options
  object in which \<open>ignoreCase\<close> is absent it is the call with \<open>ignoreCase: false\<close>.
  On a cached collection the first compares the upper-casings of the query and of the
  field, and the second compares the strings as they are, with no upper-casing. This
  holds for every upper-casing function.
\<close>

theorem omitted_options:
  "getByEmail up its q None = getByEmail up its q (Some \<lparr>ignoreCase = Some True\<rparr>)
 \<and> getByEmail up its q (Some \<lparr>ignoreCase = None\<rparr>)
      = getByEmail up its q (Some \<lparr>ignoreCase = Some False\<rparr>)
 \<and> getByEmails up its emails None = getByEmails up its emails (Some \<lparr>ignoreCase = Some True\<rparr>)
 \<and> getByEmails up its emails (Some \<lparr>ignoreCase = None\<rparr>)
      = getByEmails up its emails (Some \<lparr>ignoreCase = Some False\<rparr>)
 \<and> getByName up its q None = getByName up its q (Some \<lparr>ignoreCase = Some True\<rparr>)
 \<and> getByName up its q (Some \<lparr>ignoreCase = None\<rparr>)
      = getByName up its q (Some \<lparr>ignoreCase = Some False\<rparr>)
 \<and> (its c = (Inr us, c') \<longrightarrow>
      getByEmail up its q None c
        = (Inr (List.find (\<lambda>u. up (User_email u) = up q) us), c')
    \<and> getByEmail up its q (Some \<lparr>ignoreCase = None\<rparr>) c
        = (Inr (List.find (\<lambda>u. User_email u = q) us), c')
    \<and> getByEmails up its emails None c
        = (Inr (filter (\<lambda>u. \<exists>e\<in>set emails. up e = up (User_email u)) us), c')
    \<and> getByEmails up its emails (Some \<lparr>ignoreCase = None\<rparr>) c
        = (Inr (filter (\<lambda>u. User_email u \<in> set emails) us), c')
    \<and> getByName up its q None c
        = (Inr (List.find (\<lambda>u. up (User_name u) = up q) us), c')
    \<and> getByName up its q (Some \<lparr>ignoreCase = None\<rparr>) c
        = (Inr (List.find (\<lambda>u. User_name u = q) us), c'))"
proof -
  have same: "getByEmail up its q None = getByEmail up its q (Some \<lparr>ignoreCase = Some True\<rparr>)
     \<and> getByEmail up its q (Some \<lparr>ignoreCase = None\<rparr>)
          = getByEmail up its q (Some \<lparr>ignoreCase = Some False\<rparr>)
     \<and> getByEmails up its emails None
          = getByEmails up its emails (Some \<lparr>ignoreCase = Some True\<rparr>)
     \<and> getByEmails up its emails (Some \<lparr>ignoreCase = None\<rparr>)
          = getByEmails up its emails (Some \<lparr>ignoreCase = Some False\<rparr>)
     \<and> getByName up its q None = getByName up its q (Some \<lparr>ignoreCase = Some True\<rparr>)
     \<and> getByName up its q (Some \<lparr>ignoreCase = None\<rparr>)
          = getByName up its q (Some \<lparr>ignoreCase = Some False\<rparr>)"
    by (simp add: getByEmail_def getByEmails_def getByName_def default_options_def Let_def
        fun_eq_iff split: prod.splits sum.splits)
  have folded: "its c = (Inr us, c') \<longrightarrow>
      getByEmail up its q None c
        = (Inr (List.find (\<lambda>u. up (User_email u) = up q) us), c')
    \<and> getByEmails up its emails None c
        = (Inr (filter (\<lambda>u. \<exists>e\<in>set emails. up e = up (User_email u)) us), c')
    \<and> getByName up its q None c
        = (Inr (List.find (\<lambda>u. up (User_name u) = up q) us), c')"
    by (simp add: getByEmail_def getByEmails_def getByName_def default_options_def Let_def
        Iterables_find_eq Iterables_filter_eq includes_folded)
  have plain: "its c = (Inr us, c') \<longrightarrow>
      getByEmail up its q (Some \<lparr>ignoreCase = None\<rparr>) c
        = (Inr (List.find (\<lambda>u. User_email u = q) us), c')
    \<and> getByEmails up its emails (Some \<lparr>ignoreCase = None\<rparr>) c
        = (Inr (filter (\<lambda>u. User_email u \<in> set emails) us), c')
    \<and> getByName up its q (Some \<lparr>ignoreCase = None\<rparr>) c
        = (Inr (List.find (\<lambda>u. User_name u = q) us), c')"
    by (simp add: getByEmail_def getByEmails_def getByName_def default_options_def Let_def
        Iterables_find_eq Iterables_filter_eq Array_includes_iff)
  from same folded plain show ?thesis by blast
qed

theorem omitted_options_witness:
  "items example_getUsers cached_collection
     = (Inr (map (User ()) example_raws), cached_collection)
 \<and> getByEmail example_upperCase (items example_getUsers) ''C@D.ORG'' None cached_collection
     = (Inr (Some (User () \<lparr>CSUser_id = ''u3'', email = ''c@d.org'', username = ''Cy''\<rparr>)),
        cached_collection)
 \<and> getByEmail example_upperCase (items example_getUsers) ''C@D.ORG''
       (Some \<lparr>ignoreCase = None\<rparr>) cached_collection
     = (Inr None, cached_collection)"
proof -
  have h1: "items example_getUsers cached_collection
      = (Inr (map (User ()) example_raws), cached_collection)"
    by (rule items_cached_collection)
  have f1: "List.find (\<lambda>u. example_upperCase (User_email u) = example_upperCase ''C@D.ORG'')
              (map (User ()) example_raws)
      = Some (User () \<lparr>CSUser_id = ''u3'', email = ''c@d.org'', username = ''Cy''\<rparr>)"
    by code_simp
  have f2: "List.find (\<lambda>u. User_email u = ''C@D.ORG'') (map (User ()) example_raws) = None"
    by code_simp
  note inst = omitted_options [where its = "items example_getUsers" and c = cached_collection
        and us = "map (User ()) example_raws" and c' = cached_collection
        and up = example_upperCase and q = "''C@D.ORG''" and emails = "[]",
        THEN conjunct2, THEN conjunct2, THEN conjunct2, THEN conjunct2, THEN conjunct2,
        THEN conjunct2, THEN mp, OF h1]
  have a: "getByEmail example_upperCase (items example_getUsers) ''C@D.ORG'' None
       cached_collection
     = (Inr (Some (User () \<lparr>CSUser_id = ''u3'', email = ''c@d.org'', username = ''Cy''\<rparr>)),
        cached_collection)"
    using inst [THEN conjunct1] f1 by simp
  have b: "getByEmail example_upperCase (items example_getUsers) ''C@D.ORG''
       (Some \<lparr>ignoreCase = None\<rparr>) cached_collection = (Inr None, cached_collection)"
    using inst [THEN conjunct2, THEN conjunct1] f2 by simp
  from h1 a b show ?thesis by blast
qed

section \<open>The claims about the Trello provider\<close>

lemma not_memberIdUrl:
  "\<not> prefix ''/token/'' (boardsUrl qs p)"
  "\<not> prefix ''/token/'' (listsUrl qs lr p)"
  "\<not> prefix ''/token/'' (createCardUrl qs cr p)"
  by (simp_all add: boardsUrl_def listsUrl_def createCardUrl_def)

text \<open>
  Claim C3: whatever the board-lists endpoint answers, a successful \<open>lists\<close> returns
  no list whose closed flag is true: it returns the lists of the response body that are
  not closed, in their order.
\<close>

theorem lists_exclude_closed:
  assumes "fst (lists_trello get qs request p) = Inr r"
  shows "(\<forall>l\<in>set (response_lists r). \<not> closed l)
       \<and> (\<exists>response. get (listsUrl qs request p) = Inr response
            \<and> response_lists r = filter (\<lambda>l. \<not> closed l) (body response))"
  using assms by (auto simp: lists_trello_def split: sum.splits)

theorem lists_exclude_closed_witness:
  "fst (lists_trello example_lists_get example_qs \<lparr>boardId = ''b1''\<rparr> example_provider)
     = Inr (FetchListsResponse
         [\<lparr>list_id = ''l1'', list_name = ''To do'', closed = False\<rparr>,
          \<lparr>list_id = ''l3'', list_name = ''Done'', closed = False\<rparr>])
 \<and> map closed
       [\<lparr>list_id = ''l1'', list_name = ''To do'', closed = False\<rparr>,
        \<lparr>list_id = ''l3'', list_name = ''Done'', closed = False\<rparr>] = [False, False]"
proof -
  have h: "fst (lists_trello example_lists_get example_qs \<lparr>boardId = ''b1''\<rparr> example_provider)
     = Inr (FetchListsResponse
         [\<lparr>list_id = ''l1'', list_name = ''To do'', closed = False\<rparr>,
          \<lparr>list_id = ''l3'', list_name = ''Done'', closed = False\<rparr>])"
    by (simp add: lists_trello_def example_lists_get_def)
  from lists_exclude_closed [where get = example_lists_get and qs = example_qs
      and request = "\<lparr>boardId = ''b1''\<rparr>" and p = example_provider, OF h]
  have "\<forall>l\<in>set [\<lparr>list_id = ''l1'', list_name = ''To do'', closed = False\<rparr>,
             \<lparr>list_id = ''l3'', list_name = ''Done'', closed = False\<rparr>]. \<not> closed l"
    by simp
  then have "map closed
       [\<lparr>list_id = ''l1'', list_name = ''To do'', closed = False\<rparr>,
        \<lparr>list_id = ''l3'', list_name = ''Done'', closed = False\<rparr>] = [False, False]"
    by simp
  with h show ?thesis by blast
qed

text \<open>
  Claim C4, as amended: when the boards endpoint answers, \<open>boards\<close> with a non-empty
  organization id \<open>X\<close> returns exactly the fetched boards whose \<open>idOrganization\<close> is
  \<open>X\<close>, in their order, and \<open>boards\<close> without the filter returns all fetched boards.
\<close>

theorem boards_by_organization:
  assumes "get (boardsUrl qs p) = Inr response"
  shows "(X \<noteq> [] \<longrightarrow>
            fst (boards get qs \<lparr>organizationId = Some X\<rparr> p)
              = Inr (FetchBoardsResponse (filter (\<lambda>b. idOrganization b = X) (body response))))
       \<and> fst (boards get qs \<lparr>organizationId = None\<rparr> p)
              = Inr (FetchBoardsResponse (body response))"
  using assms by (simp add: boards_def string_truthy_def)

theorem boards_by_organization_witness:
  "example_boards_get (boardsUrl example_qs example_provider) = Inr \<lparr>body = example_boards\<rparr>
 \<and> ''org1'' \<noteq> []
 \<and> fst (boards example_boards_get example_qs \<lparr>organizationId = Some ''org1''\<rparr> example_provider)
     = Inr (FetchBoardsResponse
         [\<lparr>board_id = ''b1'', board_name = ''Work'', idOrganization = ''org1''\<rparr>,
          \<lparr>board_id = ''b3'', board_name = ''Plans'', idOrganization = ''org1''\<rparr>])
 \<and> fst (boards example_boards_get example_qs \<lparr>organizationId = None\<rparr> example_provider)
     = Inr (FetchBoardsResponse example_boards)"
proof -
  have h: "example_boards_get (boardsUrl example_qs example_provider)
      = Inr \<lparr>body = example_boards\<rparr>"
    by (simp add: example_boards_get_def)
  have n: "''org1'' \<noteq> []"
    by simp
  have f: "filter (\<lambda>b. idOrganization b = ''org1'') example_boards
      = [\<lparr>board_id = ''b1'', board_name = ''Work'', idOrganization = ''org1''\<rparr>,
         \<lparr>board_id = ''b3'', board_name = ''Plans'', idOrganization = ''org1''\<rparr>]"
    by (simp add: example_boards_def)
  show ?thesis
    using h n f
      boards_by_organization [where get = example_boards_get and qs = example_qs
        and p = example_provider and response = "\<lparr>body = example_boards\<rparr>"
        and X = "''org1''", OF h]
    by simp
qed

text \<open>
  The claim as stated fails for the empty organization id: the condition on
  \<open>request.organizationId\<close> is false for the empty string, and all fetched boards come
  back, none of which has the empty organization id.
\<close>

theorem boards_by_organization_counterexample:
  "fst (boards example_boards_get example_qs \<lparr>organizationId = Some ''''\<rparr> example_provider)
     = Inr (FetchBoardsResponse example_boards)
 \<and> map idOrganization example_boards = [''org1'', ''org2'', ''org1'']"
  by (simp add: boards_def example_boards_get_def string_truthy_def example_boards_def)

text \<open>
  Claim C8, as amended: \<open>onConnected\<close> issues exactly one request, the token
  request, and on success stores the \<open>idMember\<close> of the answer in
  \<open>_trelloUserId\<close>; \<open>boards\<close>, \<open>lists\<close> and \<open>createCard\<close> each issue exactly one
  request, which is not a token request, and leave the provider as it was. What is
  cached is the member id; the access token is already held and is sent on the token
  request.
\<close>

theorem member_id_cached:
  "onConnected tget qs p =
     (case tget (memberIdUrl qs p) of
        Inl e \<Rightarrow> (Inl e, p, [GET (memberIdUrl qs p)])
      | Inr response \<Rightarrow>
          (Inr (), p\<lparr>trelloUserId := Some (idMember (body response))\<rparr>,
           [GET (memberIdUrl qs p)]))
   \<and> prefix ''/token/'' (memberIdUrl qs p)
   \<and> snd (boards bget qs br p) = (p, [GET (boardsUrl qs p)])
   \<and> snd (lists_trello lget qs lr p) = (p, [GET (listsUrl qs lr p)])
   \<and> snd (createCard post qs cr p) = (p, [POST (createCardUrl qs cr p)])
   \<and> \<not> prefix ''/token/'' (boardsUrl qs p)
   \<and> \<not> prefix ''/token/'' (listsUrl qs lr p)
   \<and> \<not> prefix ''/token/'' (createCardUrl qs cr p)"
  by (simp add: onConnected_def getMemberId_def boards_def lists_trello_def createCard_def
      not_memberIdUrl memberIdUrl_def split: sum.splits)

theorem member_id_cached_witness:
  "onConnected example_token_get example_qs example_provider
     = (Inr (), example_provider\<lparr>trelloUserId := Some ''member1''\<rparr>,
        [GET ''/token/tok1?key=key1&token=tok1&''])
 \<and> snd (boards example_boards_get example_qs \<lparr>organizationId = None\<rparr>
          (example_provider\<lparr>trelloUserId := Some ''member1''\<rparr>))
     = (example_provider\<lparr>trelloUserId := Some ''member1''\<rparr>,
        [GET (boardsUrl example_qs (example_provider\<lparr>trelloUserId := Some ''member1''\<rparr>))])"
proof -
  have u: "memberIdUrl example_qs example_provider = ''/token/tok1?key=key1&token=tok1&''"
    by (simp add: memberIdUrl_def example_qs_def example_provider_def template_def apiKey_def)
  have g: "example_token_get ''/token/tok1?key=key1&token=tok1&''
      = Inr \<lparr>body = \<lparr>idMember = ''member1''\<rparr>\<rparr>"
    by (simp add: example_token_get_def)
  have a: "onConnected example_token_get example_qs example_provider
     = (Inr (), example_provider\<lparr>trelloUserId := Some ''member1''\<rparr>,
        [GET ''/token/tok1?key=key1&token=tok1&''])"
    using member_id_cached [where tget = example_token_get and qs = example_qs
        and p = example_provider, THEN conjunct1] u g
    by simp
  have b: "snd (boards example_boards_get example_qs \<lparr>organizationId = None\<rparr>
          (example_provider\<lparr>trelloUserId := Some ''member1''\<rparr>))
     = (example_provider\<lparr>trelloUserId := Some ''member1''\<rparr>,
        [GET (boardsUrl example_qs (example_provider\<lparr>trelloUserId := Some ''member1''\<rparr>))])"
    using member_id_cached [where bget = example_boards_get and qs = example_qs
        and p = "example_provider\<lparr>trelloUserId := Some ''member1''\<rparr>"
        and br = "\<lparr>organizationId = None\<rparr>"]
    by blast
  from a b show ?thesis by blast
qed

text \<open>
  The claim as stated fails on what is obtained: the provider holds the access token
  \<open>tok1\<close> before it connects and sends it on the token request; the value that
  \<open>onConnected\<close> obtains and caches is the member id \<open>member1\<close>, and the access
  token is as it was.
\<close>

theorem member_id_cached_counterexample:
  "accessToken example_provider = Some ''tok1''
 \<and> snd (snd (onConnected example_token_get example_qs example_provider))
     = [GET ''/token/tok1?key=key1&token=tok1&'']
 \<and> trelloUserId (fst (snd (onConnected example_token_get example_qs example_provider)))
     = Some ''member1''
 \<and> accessToken (fst (snd (onConnected example_token_get example_qs example_provider)))
     = Some ''tok1''
 \<and> trelloUserId (fst (snd (onConnected example_token_get example_qs example_provider)))
     \<noteq> accessToken (fst (snd (onConnected example_token_get example_qs example_provider)))"
  by (simp add: onConnected_def getMemberId_def memberIdUrl_def example_token_get_def
      example_qs_def example_provider_def template_def apiKey_def)

section \<open>The claim about the web view bridge\<close>

text \<open>
  Claim C10: \<open>Handle\<close> does not read its origin argument: with a handler registered,
  any two origins give the same dispatch, which is the handler applied to the sender and
  to the arguments built from the message alone; with no handler registered, \<open>Handle\<close>
  leaves the state as it is.
\<close>

theorem Handle_ignores_origin:
  "Handle (Some handler) this message origin1 w = Handle (Some handler) this message origin2 w
 \<and> Handle (Some handler) this message origin1 w = handler this (WindowEventArgs message) w
 \<and> Handle None this message origin1 w = w"
  by (simp add: Handle_def)

theorem Handle_ignores_origin_witness:
  "Handle (Some example_handler) () (Some ''{}'') (Some ''https://a.example'') []
     = Handle (Some example_handler) () (Some ''{}'') None []
 \<and> Handle (Some example_handler) () (Some ''{}'') None [] = [''{}'']
 \<and> Handle None () (Some ''{}'') (Some ''https://a.example'') [''x''] = [''x'']"
proof -
  have e: "example_handler () (WindowEventArgs (Some ''{}'')) [] = [''{}'']"
    by (simp add: example_handler_def)
  have n: "Handle (None :: (unit, string list) WindowMessageHandler option) ()
      (Some ''{}'') (Some ''https://a.example'') [''x''] = [''x'']"
    using Handle_ignores_origin [where this = "()" and message = "Some ''{}''"
        and ?origin1.0 = "Some ''https://a.example''" and w = "[''x'']"
        and handler = example_handler]
    by blast
  show ?thesis
    using e n
      Handle_ignores_origin [where handler = example_handler and this = "()"
        and message = "Some ''{}''" and ?origin1.0 = "Some ''https://a.example''"
        and ?origin2.0 = None and w = "[]"]
      Handle_ignores_origin [where handler = example_handler and this = "()"
        and message = "Some ''{}''" and ?origin1.0 = None
        and ?origin2.0 = None and w = "[]"]
    by simp
qed

end

